theory Spec2Isabelle
  imports Complex_Main "HOL-Library.Sublist"
begin

section \<open>JavaScript values used by the document-generation pipeline\<close>

text \<open>
  Strings are byte strings: the UTF-8 encoding of the JavaScript string, which is what
  the generated file holds on disk. A field that may be missing from an object is a
  \<open>string option\<close>: \<open>None\<close> is JavaScript's \<open>undefined\<close>.
\<close>

definition truthy :: "string option \<Rightarrow> bool" where
  "truthy v = (case v of None \<Rightarrow> False | Some s \<Rightarrow> s \<noteq> [])"

text \<open>What a template literal \<open>${v}\<close> writes for a field.\<close>

definition toStr :: "string option \<Rightarrow> string" where
  "toStr v = (case v of None \<Rightarrow> ''undefined'' | Some s \<Rightarrow> s)"

text \<open>\<open>v || dflt\<close> for a string field and a string default.\<close>

definition orElse :: "string option \<Rightarrow> string \<Rightarrow> string" where
  "orElse v dflt = (case v of None \<Rightarrow> dflt | Some s \<Rightarrow> if s = [] then dflt else s)"

text \<open>\<open>s.split(',')\<close>: the pieces between the separators, never an empty array.\<close>

fun split :: "char \<Rightarrow> string \<Rightarrow> string list" where
  "split sep [] = [[]]"
| "split sep (c # cs) =
     (if c = sep then [] # split sep cs
      else (case split sep cs of [] \<Rightarrow> [[c]] | w # ws \<Rightarrow> (c # w) # ws))"

text \<open>
  \<open>s.trim()\<close> strips the code points of WhiteSpace and LineTerminator from both ends.
  They are listed here by their UTF-8 bytes: TAB, LF, VT, FF, CR, SP, U+00A0, U+1680,
  U+2000 to U+200A, U+2028, U+2029, U+202F, U+205F, U+3000 and U+FEFF.
\<close>

definition js_whitespace :: "string list" where
  "js_whitespace =
     [[CHR 0x09], [CHR 0x0A], [CHR 0x0B], [CHR 0x0C], [CHR 0x0D], [CHR 0x20],
      [CHR 0xC2, CHR 0xA0],
      [CHR 0xE1, CHR 0x9A, CHR 0x80],
      [CHR 0xE2, CHR 0x80, CHR 0x80], [CHR 0xE2, CHR 0x80, CHR 0x81],
      [CHR 0xE2, CHR 0x80, CHR 0x82], [CHR 0xE2, CHR 0x80, CHR 0x83],
      [CHR 0xE2, CHR 0x80, CHR 0x84], [CHR 0xE2, CHR 0x80, CHR 0x85],
      [CHR 0xE2, CHR 0x80, CHR 0x86], [CHR 0xE2, CHR 0x80, CHR 0x87],
      [CHR 0xE2, CHR 0x80, CHR 0x88], [CHR 0xE2, CHR 0x80, CHR 0x89],
      [CHR 0xE2, CHR 0x80, CHR 0x8A],
      [CHR 0xE2, CHR 0x80, CHR 0xA8], [CHR 0xE2, CHR 0x80, CHR 0xA9],
      [CHR 0xE2, CHR 0x80, CHR 0xAF], [CHR 0xE2, CHR 0x81, CHR 0x9F],
      [CHR 0xE3, CHR 0x80, CHR 0x80], [CHR 0xEF, CHR 0xBB, CHR 0xBF]]"

definition lead_len :: "string list \<Rightarrow> string \<Rightarrow> nat" where
  "lead_len ws s = (case find (\<lambda>w. prefix w s) ws of None \<Rightarrow> 0 | Some w \<Rightarrow> length w)"

function strip :: "string list \<Rightarrow> string \<Rightarrow> string" where
  "strip ws s = (if lead_len ws s = 0 then s else strip ws (drop (lead_len ws s) s))"
  by pat_completeness auto
termination
proof (relation "measure (\<lambda>(ws, s). length s)")
  show "wf (measure (\<lambda>(ws, s). length s))" by simp
next
  fix ws :: "string list" and s :: string
  assume pos: "lead_len ws s \<noteq> 0"
  have "s \<noteq> []"
  proof
    assume "s = []"
    with pos show False
      by (auto simp: lead_len_def find_Some_iff split: option.splits)
  qed
  with pos show "((ws, drop (lead_len ws s) s), (ws, s)) \<in> measure (\<lambda>(ws, s). length s)"
    by simp
qed

declare strip.simps [simp del]

definition trimStart :: "string \<Rightarrow> string" where
  "trimStart s = strip js_whitespace s"

definition trimEnd :: "string \<Rightarrow> string" where
  "trimEnd s = rev (strip (map rev js_whitespace) (rev s))"

definition trim :: "string \<Rightarrow> string" where
  "trim s = trimEnd (trimStart s)"

text \<open>A number written into a template literal: integers print in decimal.\<close>

definition digit_char :: "nat \<Rightarrow> char" where
  "digit_char n = ''0123456789'' ! n"

function decimal :: "nat \<Rightarrow> string" where
  "decimal n = (if n < 10 then [digit_char n] else decimal (n div 10) @ [digit_char (n mod 10)])"
  by pat_completeness auto
termination
  by (relation "measure (\<lambda>n. n)") auto

declare decimal.simps [simp del]

definition numToStr :: "int \<Rightarrow> string" where
  "numToStr i = (if i < 0 then CHR ''-'' # decimal (nat (- i)) else decimal (nat i))"

text \<open>
  The clock as the code reads it: \<open>Date.now()\<close>, \<open>new Date().getFullYear()\<close> and
  \<open>new Date().toLocaleDateString()\<close>.
\<close>

record clock =
  now :: int
  getFullYear :: int
  toLocaleDateString :: string

section \<open>ColorTheme\<close>

text \<open>The \<open>colors\<close> object of a portfolio's customizations; each property may be missing.\<close>

record colors =
  primary :: "string option"
  accent :: "string option"
  background :: "string option"

record customizations =
  colors :: "colors option"

text \<open>
  The helper \<open>hexToRgb\<close> of the PDF route, with the \<open>parseInt(s, 16)\<close> and the regular
  expression it is made of.

  \<open>parseInt(s, 16)\<close>: leading white space, a sign and a \<open>0x\<close> prefix are skipped, then
  the longest run of hexadecimal digits is read; \<open>None\<close> is \<open>NaN\<close>.
\<close>

definition hex_val :: "char \<Rightarrow> nat option" where
  "hex_val c =
     (let n = (of_char c :: nat) in
      if 48 \<le> n \<and> n \<le> 57 then Some (n - 48)
      else if 97 \<le> n \<and> n \<le> 102 then Some (n - 87)
      else if 65 \<le> n \<and> n \<le> 70 then Some (n - 55)
      else None)"

definition is_hex :: "char \<Rightarrow> bool" where
  "is_hex c = (hex_val c \<noteq> None)"

fun hex_digits :: "nat \<Rightarrow> string \<Rightarrow> nat" where
  "hex_digits acc [] = acc"
| "hex_digits acc (c # cs) =
     (case hex_val c of None \<Rightarrow> acc | Some v \<Rightarrow> hex_digits (16 * acc + v) cs)"

definition parseInt16 :: "string \<Rightarrow> int option" where
  "parseInt16 s =
     (let t = trimStart s;
          (neg, u) = (case t of [] \<Rightarrow> (False, t)
                      | c # rest \<Rightarrow> if c = CHR ''-'' then (True, rest)
                                   else if c = CHR ''+'' then (False, rest) else (False, t));
          v = (if prefix ''0x'' u \<or> prefix ''0X'' u then drop 2 u else u)
      in case v of [] \<Rightarrow> None
         | c # rest \<Rightarrow> if is_hex c
                       then Some ((if neg then - 1 else 1) * int (hex_digits 0 v))
                       else None)"

text \<open>
  The match of \<open>/^#?([a-f\d]{2})([a-f\d]{2})([a-f\d]{2})$/i\<close>: the three groups, or
  \<open>None\<close> when \<open>exec\<close> returns \<open>null\<close>.
\<close>

definition hex_groups :: "string \<Rightarrow> (string \<times> string \<times> string) option" where
  "hex_groups hex =
     (let body = (case hex of [] \<Rightarrow> hex | c # rest \<Rightarrow> if c = CHR ''#'' then rest else hex)
      in if length body = 6 \<and> list_all is_hex body
         then Some (take 2 body, take 2 (drop 2 body), drop 4 body)
         else None)"

record rgb =
  r :: "int option"
  g :: "int option"
  b :: "int option"

definition hexToRgb :: "string \<Rightarrow> rgb" where
  "hexToRgb hex =
     (case hex_groups hex of
        Some (g1, g2, g3) \<Rightarrow> \<lparr>r = parseInt16 g1, g = parseInt16 g2, b = parseInt16 g3\<rparr>
      | None \<Rightarrow> \<lparr>r = Some 176, g = Some 38, b = Some 255\<rparr>)"

section \<open>HTML document composer (\<open>src/backend/server.js\<close>)\<close>

text \<open>
  The flat record \<open>data\<close> handed to \<open>generatePortfolioHTML\<close>. \<open>name\<close> and \<open>email\<close> are
  always there; every other property may be missing. \<open>skills\<close> is an array of strings, a
  comma-separated string, or missing.
\<close>

datatype skills_field = SkillsArray "string list" | SkillsString string | SkillsAbsent

record content_record =
  name :: string
  title :: "string option"
  experience :: "string option"
  location :: "string option"
  aboutMe :: "string option"
  jobs :: "string option"
  skills :: skills_field
  services :: "string option"
  testimonials :: "string option"
  instagram :: "string option"
  youtube :: "string option"
  tiktok :: "string option"
  facebook :: "string option"
  twitter :: "string option"
  website :: "string option"
  email :: string
  phone :: "string option"

text \<open>The three template bodies, character for character. The modern one is given in parts.\<close>

text \<open>Lines 171 to 180.\<close>

definition modern_header :: "content_record \<Rightarrow> string" where
\<open>modern_header data =
  ''\<newline>'' @
  ''    <header>\<newline>'' @
  ''        <div class="container">\<newline>'' @
  ''            <img src="https://images.unsplash.com/photo-1583864697784-a0efc8379f70?ixlib=rb-4.0.3&auto=format&fit=crop&w=600&q=80" alt="'' @
  name data @
  ''" class="profile-img">\<newline>'' @
  ''            <h1>'' @
  name data @
  ''</h1>\<newline>'' @
  ''            <h3>'' @
  toStr (title data) @
  ''</h3>\<newline>'' @
  ''            <p>'' @
  toStr (experience data) @
  '' '' @ [CHR 0xE2, CHR 0x80, CHR 0xA2] @ '' '' @
  orElse (location data) ''Creative Professional'' @
  ''</p>\<newline>'' @
  ''        </div>\<newline>'' @
  ''    </header>\<newline>'' @
  ''\<newline>''\<close>

text \<open>Lines 181 to 186.\<close>

definition modern_about :: "content_record \<Rightarrow> string" where
\<open>modern_about data =
  ''    <main class="container">\<newline>'' @
  ''        <section>\<newline>'' @
  ''            <h2>About Me</h2>\<newline>'' @
  ''            <div class="section-content">'' @
  toStr (aboutMe data) @
  ''</div>\<newline>'' @
  ''        </section>\<newline>'' @
  ''\<newline>''\<close>

text \<open>Lines 187 to 193.\<close>

definition modern_experience :: "content_record \<Rightarrow> string" where
\<open>modern_experience data =
  ''        '' @
  (if truthy (jobs data)
   then ''\<newline>'' @
       ''        <section>\<newline>'' @
       ''            <h2>Experience</h2>\<newline>'' @
       ''            <div class="section-content">'' @
       toStr (jobs data) @
       ''</div>\<newline>'' @
       ''        </section>\<newline>'' @
       ''        ''
   else []) @
  ''\<newline>'' @
  ''\<newline>''\<close>

text \<open>Lines 194 to 200.\<close>

definition modern_skills :: "string list \<Rightarrow> string" where
\<open>modern_skills skillsList =
  ''        <section>\<newline>'' @
  ''            <h2>Skills</h2>\<newline>'' @
  ''            <div class="skills">\<newline>'' @
  ''                '' @
  concat (map (\<lambda>skill.
      ''<span class="skill">'' @
      skill @
      ''</span>'')
    skillsList) @
  ''\<newline>'' @
  ''            </div>\<newline>'' @
  ''        </section>\<newline>'' @
  ''\<newline>''\<close>

text \<open>Lines 201 to 207.\<close>

definition modern_services :: "content_record \<Rightarrow> string" where
\<open>modern_services data =
  ''        '' @
  (if truthy (services data)
   then ''\<newline>'' @
       ''        <section>\<newline>'' @
       ''            <h2>Services</h2>\<newline>'' @
       ''            <div class="section-content">'' @
       toStr (services data) @
       ''</div>\<newline>'' @
       ''        </section>\<newline>'' @
       ''        ''
   else []) @
  ''\<newline>'' @
  ''\<newline>''\<close>

text \<open>Lines 208 to 214.\<close>

definition modern_testimonials :: "content_record \<Rightarrow> string" where
\<open>modern_testimonials data =
  ''        '' @
  (if truthy (testimonials data)
   then ''\<newline>'' @
       ''        <section>\<newline>'' @
       ''            <h2>Testimonials</h2>\<newline>'' @
       ''            <div class="section-content" style="font-style: italic;">'' @
       toStr (testimonials data) @
       ''</div>\<newline>'' @
       ''        </section>\<newline>'' @
       ''        ''
   else []) @
  ''\<newline>'' @
  ''\<newline>''\<close>

text \<open>Lines 215 to 231.\<close>

definition modern_connect :: "content_record \<Rightarrow> string" where
\<open>modern_connect data =
  ''        <section>\<newline>'' @
  ''            <h2>Connect With Me</h2>\<newline>'' @
  ''            <div class="social-links">\<newline>'' @
  ''                '' @
  (if truthy (instagram data)
   then ''<a href="'' @
       toStr (instagram data) @
       ''" target="_blank"><i class="fab fa-instagram"></i></a>''
   else []) @
  ''\<newline>'' @
  ''                '' @
  (if truthy (youtube data)
   then ''<a href="'' @
       toStr (youtube data) @
       ''" target="_blank"><i class="fab fa-youtube"></i></a>''
   else []) @
  ''\<newline>'' @
  ''                '' @
  (if truthy (tiktok data)
   then ''<a href="'' @
       toStr (tiktok data) @
       ''" target="_blank"><i class="fab fa-tiktok"></i></a>''
   else []) @
  ''\<newline>'' @
  ''                '' @
  (if truthy (facebook data)
   then ''<a href="'' @
       toStr (facebook data) @
       ''" target="_blank"><i class="fab fa-facebook"></i></a>''
   else []) @
  ''\<newline>'' @
  ''                '' @
  (if truthy (twitter data)
   then ''<a href="'' @
       toStr (twitter data) @
       ''" target="_blank"><i class="fab fa-twitter"></i></a>''
   else []) @
  ''\<newline>'' @
  ''                '' @
  (if truthy (website data)
   then ''<a href="'' @
       toStr (website data) @
       ''" target="_blank"><i class="fas fa-globe"></i></a>''
   else []) @
  ''\<newline>'' @
  ''            </div>\<newline>'' @
  ''            <div style="margin-top: 1rem;">\<newline>'' @
  ''                <p>Email: <a href="mailto:'' @
  email data @
  ''" style="color: var(--accent);">'' @
  email data @
  ''</a></p>\<newline>'' @
  ''                '' @
  (if truthy (phone data)
   then ''<p>Phone: '' @
       toStr (phone data) @
       ''</p>''
   else []) @
  ''\<newline>'' @
  ''            </div>\<newline>'' @
  ''        </section>\<newline>'' @
  ''    </main>\<newline>'' @
  ''\<newline>''\<close>

text \<open>Lines 232 to 234.\<close>

definition modern_footer :: "clock \<Rightarrow> content_record \<Rightarrow> string" where
\<open>modern_footer clock data =
  ''    <footer>\<newline>'' @
  ''        <p>&copy; '' @
  numToStr (getFullYear clock) @
  '' '' @
  name data @
  ''. All rights reserved.</p>\<newline>'' @
  ''    </footer>''\<close>

text \<open>The template literal of \<open>generateModernTemplate\<close>, its parts in order.\<close>

definition generateModernTemplate :: "clock \<Rightarrow> content_record \<Rightarrow> string list \<Rightarrow> colors \<Rightarrow> string" where
  "generateModernTemplate clock data skillsList colours =
     modern_header data @
     modern_about data @
     modern_experience data @
     modern_skills skillsList @
     modern_services data @
     modern_testimonials data @
     modern_connect data @
     modern_footer clock data"

definition generateClassicTemplate :: "clock \<Rightarrow> content_record \<Rightarrow> string list \<Rightarrow> colors \<Rightarrow> string" where
\<open>generateClassicTemplate clock data skillsList colours =
  ''\<newline>'' @
  ''    <div class="container">\<newline>'' @
  ''        <header style="background: none; color: inherit; padding: 2rem 0; text-align: left; border-bottom: 2px solid var(--primary);">\<newline>'' @
  ''            <div style="display: flex; align-items: center; gap: 2rem;">\<newline>'' @
  ''                <img src="https://images.unsplash.com/photo-1583864697784-a0efc8379f70?ixlib=rb-4.0.3&auto=format&fit=crop&w=600&q=80" \<newline>'' @
  ''                     alt="'' @
  name data @
  ''" \<newline>'' @
  ''                     style="width: 120px; height: 120px; border-radius: 50%; object-fit: cover; border: 3px solid var(--primary);">\<newline>'' @
  ''                <div>\<newline>'' @
  ''                    <h1 style="margin-bottom: 0.5rem;">'' @
  name data @
  ''</h1>\<newline>'' @
  ''                    <h3 style="color: var(--primary); margin-bottom: 0.5rem;">'' @
  toStr (title data) @
  ''</h3>\<newline>'' @
  ''                    <p>'' @
  orElse (location data) [] @
  ''</p>\<newline>'' @
  ''                </div>\<newline>'' @
  ''            </div>\<newline>'' @
  ''        </header>\<newline>'' @
  ''\<newline>'' @
  ''        <main style="display: grid; grid-template-columns: 2fr 1fr; gap: 3rem; margin-top: 2rem;">\<newline>'' @
  ''            <div>\<newline>'' @
  ''                <section>\<newline>'' @
  ''                    <h2>About Me</h2>\<newline>'' @
  ''                    <div class="section-content">'' @
  toStr (aboutMe data) @
  ''</div>\<newline>'' @
  ''                </section>\<newline>'' @
  ''\<newline>'' @
  ''                '' @
  (if truthy (jobs data)
   then ''\<newline>'' @
       ''                <section>\<newline>'' @
       ''                    <h2>Experience</h2>\<newline>'' @
       ''                    <div class="section-content">'' @
       toStr (jobs data) @
       ''</div>\<newline>'' @
       ''                </section>\<newline>'' @
       ''                ''
   else []) @
  ''\<newline>'' @
  ''\<newline>'' @
  ''                '' @
  (if truthy (services data)
   then ''\<newline>'' @
       ''                <section>\<newline>'' @
       ''                    <h2>Services</h2>\<newline>'' @
       ''                    <div class="section-content">'' @
       toStr (services data) @
       ''</div>\<newline>'' @
       ''                </section>\<newline>'' @
       ''                ''
   else []) @
  ''\<newline>'' @
  ''            </div>\<newline>'' @
  ''\<newline>'' @
  ''            <div>\<newline>'' @
  ''                <section>\<newline>'' @
  ''                    <h2>Contact</h2>\<newline>'' @
  ''                    <p><strong>Email:</strong><br><a href="mailto:'' @
  email data @
  ''" style="color: var(--accent);">'' @
  email data @
  ''</a></p>\<newline>'' @
  ''                    '' @
  (if truthy (phone data)
   then ''<p><strong>Phone:</strong><br>'' @
       toStr (phone data) @
       ''</p>''
   else []) @
  ''\<newline>'' @
  ''                    \<newline>'' @
  ''                    <div style="margin-top: 1rem;">\<newline>'' @
  ''                        <h3>Social Links</h3>\<newline>'' @
  ''                        <div class="social-links">\<newline>'' @
  ''                            '' @
  (if truthy (instagram data)
   then ''<a href="'' @
       toStr (instagram data) @
       ''" target="_blank"><i class="fab fa-instagram"></i></a>''
   else []) @
  ''\<newline>'' @
  ''                            '' @
  (if truthy (youtube data)
   then ''<a href="'' @
       toStr (youtube data) @
       ''" target="_blank"><i class="fab fa-youtube"></i></a>''
   else []) @
  ''\<newline>'' @
  ''                            '' @
  (if truthy (tiktok data)
   then ''<a href="'' @
       toStr (tiktok data) @
       ''" target="_blank"><i class="fab fa-tiktok"></i></a>''
   else []) @
  ''\<newline>'' @
  ''                        </div>\<newline>'' @
  ''                    </div>\<newline>'' @
  ''                </section>\<newline>'' @
  ''\<newline>'' @
  ''                <section>\<newline>'' @
  ''                    <h2>Skills</h2>\<newline>'' @
  ''                    <div class="skills">\<newline>'' @
  ''                        '' @
  concat (map (\<lambda>skill.
      ''<span class="skill">'' @
      skill @
      ''</span>'')
    skillsList) @
  ''\<newline>'' @
  ''                    </div>\<newline>'' @
  ''                </section>\<newline>'' @
  ''\<newline>'' @
  ''                '' @
  (if truthy (testimonials data)
   then ''\<newline>'' @
       ''                <section>\<newline>'' @
       ''                    <h2>Testimonials</h2>\<newline>'' @
       ''                    <div class="section-content" style="font-size: 0.9rem; font-style: italic;">'' @
       toStr (testimonials data) @
       ''</div>\<newline>'' @
       ''                </section>\<newline>'' @
       ''                ''
   else []) @
  ''\<newline>'' @
  ''            </div>\<newline>'' @
  ''        </main>\<newline>'' @
  ''    </div>\<newline>'' @
  ''\<newline>'' @
  ''    <footer>\<newline>'' @
  ''        <p>&copy; '' @
  numToStr (getFullYear clock) @
  '' '' @
  name data @
  ''. All rights reserved.</p>\<newline>'' @
  ''    </footer>''\<close>

definition generateArtisticTemplate :: "clock \<Rightarrow> content_record \<Rightarrow> string list \<Rightarrow> colors \<Rightarrow> string" where
\<open>generateArtisticTemplate clock data skillsList colours =
  ''\<newline>'' @
  ''    <header style="background: linear-gradient(135deg, '' @
  toStr (primary colours) @
  '', #540d6e, '' @
  toStr (accent colours) @
  ''); background-size: 400% 400%; animation: gradient 15s ease infinite; min-height: 100vh; display: flex; align-items: center; justify-content: center; text-align: center;">\<newline>'' @
  ''        <style>\<newline>'' @
  ''            @keyframes gradient {\<newline>'' @
  ''                0% { background-position: 0% 50%; }\<newline>'' @
  ''                50% { background-position: 100% 50%; }\<newline>'' @
  ''                100% { background-position: 0% 50%; }\<newline>'' @
  ''            }\<newline>'' @
  ''        </style>\<newline>'' @
  ''        <div class="container">\<newline>'' @
  ''            <img src="https://images.unsplash.com/photo-1583864697784-a0efc8379f70?ixlib=rb-4.0.3&auto=format&fit=crop&w=600&q=80" \<newline>'' @
  ''                 alt="'' @
  name data @
  ''" \<newline>'' @
  ''                 class="profile-img"\<newline>'' @
  ''                 style="border: 5px solid '' @
  toStr (accent colours) @
  ''; box-shadow: 0 0 30px rgba(255, 210, 63, 0.5);">\<newline>'' @
  ''            <h1 style="font-size: 3.5rem; text-shadow: 2px 2px 4px rgba(0,0,0,0.5);">'' @
  name data @
  ''</h1>\<newline>'' @
  ''            <h3 style="font-size: 1.5rem; margin-bottom: 1rem;">'' @
  toStr (title data) @
  ''</h3>\<newline>'' @
  ''            <p style="font-size: 1.1rem;">'' @
  toStr (experience data) @
  '' Artist '' @ [CHR 0xE2, CHR 0x80, CHR 0xA2] @ '' '' @
  orElse (location data) ''Creative Visionary'' @
  ''</p>\<newline>'' @
  ''        </div>\<newline>'' @
  ''    </header>\<newline>'' @
  ''\<newline>'' @
  ''    <main class="container">\<newline>'' @
  ''        <section style="text-align: center; padding: 4rem 0;">\<newline>'' @
  ''            <h2 style="font-size: 2.5rem; margin-bottom: 2rem;">My Artistic Journey</h2>\<newline>'' @
  ''            <div class="section-content" style="font-size: 1.1rem; line-height: 1.8; max-width: 800px; margin: 0 auto;">\<newline>'' @
  ''                '' @
  toStr (aboutMe data) @
  ''\<newline>'' @
  ''            </div>\<newline>'' @
  ''        </section>\<newline>'' @
  ''\<newline>'' @
  ''        '' @
  (if truthy (jobs data)
   then ''\<newline>'' @
       ''        <section style="background: rgba(176, 38, 255, 0.1); padding: 3rem; border-radius: 20px; margin: 2rem 0;">\<newline>'' @
       ''            <h2 style="text-align: center; font-size: 2rem;">Performance History</h2>\<newline>'' @
       ''            <div class="section-content" style="font-size: 1.1rem;">'' @
       toStr (jobs data) @
       ''</div>\<newline>'' @
       ''        </section>\<newline>'' @
       ''        ''
   else []) @
  ''\<newline>'' @
  ''\<newline>'' @
  ''        <section style="text-align: center;">\<newline>'' @
  ''            <h2 style="font-size: 2rem;">Artistic Skills</h2>\<newline>'' @
  ''            <div class="skills" style="justify-content: center; margin-top: 2rem;">\<newline>'' @
  ''                '' @
  concat (map (\<lambda>skill.
      ''<span class="skill" style="background: linear-gradient(135deg, '' @
      toStr (primary colours) @
      '', '' @
      toStr (accent colours) @
      ''); font-size: 1rem; padding: 0.75rem 1.5rem;">'' @
      skill @
      ''</span>'')
    skillsList) @
  ''\<newline>'' @
  ''            </div>\<newline>'' @
  ''        </section>\<newline>'' @
  ''\<newline>'' @
  ''        '' @
  (if truthy (testimonials data)
   then ''\<newline>'' @
       ''        <section style="text-align: center; padding: 4rem 0;">\<newline>'' @
       ''            <h2 style="font-size: 2rem;">Voices of Appreciation</h2>\<newline>'' @
       ''            <div class="section-content" style="font-style: italic; font-size: 1.1rem; max-width: 800px; margin: 0 auto; background: rgba(255, 210, 63, 0.1); padding: 2rem; border-radius: 15px;">\<newline>'' @
       ''                '' @
       toStr (testimonials data) @
       ''\<newline>'' @
       ''            </div>\<newline>'' @
       ''        </section>\<newline>'' @
       ''        ''
   else []) @
  ''\<newline>'' @
  ''\<newline>'' @
  ''        <section style="text-align: center; padding: 3rem 0;">\<newline>'' @
  ''            <h2 style="font-size: 2rem;">Let's Create Together</h2>\<newline>'' @
  ''            <div class="social-links" style="justify-content: center; margin: 2rem 0;">\<newline>'' @
  ''                '' @
  (if truthy (instagram data)
   then ''<a href="'' @
       toStr (instagram data) @
       ''" target="_blank" style="font-size: 2rem; margin: 0 1rem;"><i class="fab fa-instagram"></i></a>''
   else []) @
  ''\<newline>'' @
  ''                '' @
  (if truthy (youtube data)
   then ''<a href="'' @
       toStr (youtube data) @
       ''" target="_blank" style="font-size: 2rem; margin: 0 1rem;"><i class="fab fa-youtube"></i></a>''
   else []) @
  ''\<newline>'' @
  ''                '' @
  (if truthy (tiktok data)
   then ''<a href="'' @
       toStr (tiktok data) @
       ''" target="_blank" style="font-size: 2rem; margin: 0 1rem;"><i class="fab fa-tiktok"></i></a>''
   else []) @
  ''\<newline>'' @
  ''            </div>\<newline>'' @
  ''            <div>\<newline>'' @
  ''                <p style="font-size: 1.1rem;">Email: <a href="mailto:'' @
  email data @
  ''" style="color: var(--accent); font-weight: bold;">'' @
  email data @
  ''</a></p>\<newline>'' @
  ''                '' @
  (if truthy (phone data)
   then ''<p style="font-size: 1.1rem;">Phone: '' @
       toStr (phone data) @
       ''</p>''
   else []) @
  ''\<newline>'' @
  ''            </div>\<newline>'' @
  ''        </section>\<newline>'' @
  ''    </main>\<newline>'' @
  ''\<newline>'' @
  ''    <footer style="background: rgba(10, 10, 18, 0.8); padding: 2rem 0;">\<newline>'' @
  ''        <p>&copy; '' @
  numToStr (getFullYear clock) @
  '' '' @
  name data @
  ''. All artistic rights reserved.</p>\<newline>'' @
  ''    </footer>''\<close>

text \<open>
  \<open>const skillsList = Array.isArray(data.skills) ? data.skills
     : (data.skills || '').split(',').map(s => s.trim())\<close>
\<close>

definition skillsList_of :: "content_record \<Rightarrow> string list" where
  "skillsList_of data =
     (case skills data of
        SkillsArray xs \<Rightarrow> xs
      | SkillsString s \<Rightarrow> map trim (split CHR '','' s)
      | SkillsAbsent \<Rightarrow> map trim (split CHR '','' []))"

text \<open>
  \<open>const colors = customizations.colors || { primary: ..., accent: ..., background: ... }\<close>.
  The local constant is written \<open>colours\<close> below, \<open>colors\<close> being the property of
  \<open>customizations\<close>.
\<close>

definition colors_of :: "customizations \<Rightarrow> colors" where
  "colors_of customizations =
     (case colors customizations of
        Some c \<Rightarrow> c
      | None \<Rightarrow> \<lparr>primary = Some ''#B026FF'', accent = Some ''#FFD23F'',
                  background = Some ''#0a0a12''\<rparr>)"

text \<open>The \<open>switch (template)\<close> that fills \<open>html\<close>.\<close>

definition html_of :: "clock \<Rightarrow> string \<Rightarrow> content_record \<Rightarrow> string list \<Rightarrow> colors \<Rightarrow> string" where
  "html_of clock template data skillsList colours =
     (if template = ''modern'' then generateModernTemplate clock data skillsList colours
      else if template = ''classic'' then generateClassicTemplate clock data skillsList colours
      else if template = ''artistic'' then generateArtisticTemplate clock data skillsList colours
      else generateModernTemplate clock data skillsList colours)"

text \<open>The document returned by \<open>generatePortfolioHTML\<close>, around the template's body.\<close>

text \<open>Lines 101 to 108.\<close>

definition page_head :: "content_record \<Rightarrow> string" where
\<open>page_head data =
  ''<!DOCTYPE html>\<newline>'' @
  ''<html lang="en">\<newline>'' @
  ''<head>\<newline>'' @
  ''    <meta charset="UTF-8">\<newline>'' @
  ''    <meta name="viewport" content="width=device-width, initial-scale=1.0">\<newline>'' @
  ''    <title>'' @
  name data @
  '' - '' @
  toStr (title data) @
  ''</title>\<newline>'' @
  ''    <link rel="stylesheet" href="https://cdnjs.cloudflare.com/ajax/libs/font-awesome/6.4.0/css/all.min.css">\<newline>'' @
  ''    <link href="https://fonts.googleapis.com/css2?family=Poppins:wght@400;600&family=Montserrat:wght@700&display=swap" rel="stylesheet">\<newline>''\<close>

text \<open>Lines 109 to 162.\<close>

definition page_style :: "colors \<Rightarrow> string" where
\<open>page_style colours =
  ''    <style>\<newline>'' @
  ''        :root {\<newline>'' @
  ''            --primary: '' @
  toStr (primary colours) @
  '';\<newline>'' @
  ''            --accent: '' @
  toStr (accent colours) @
  '';\<newline>'' @
  ''            --background: '' @
  toStr (background colours) @
  '';\<newline>'' @
  ''            --light: #f5f5f7;\<newline>'' @
  ''            --text-gray: #a1a1a6;\<newline>'' @
  ''        }\<newline>'' @
  ''        * { margin: 0; padding: 0; box-sizing: border-box; }\<newline>'' @
  ''        body {\<newline>'' @
  ''            font-family: 'Poppins', sans-serif;\<newline>'' @
  ''            background-color: var(--background);\<newline>'' @
  ''            color: var(--light);\<newline>'' @
  ''            line-height: 1.6;\<newline>'' @
  ''        }\<newline>'' @
  ''        .container { max-width: 1200px; margin: 0 auto; padding: 0 20px; }\<newline>'' @
  ''        header {\<newline>'' @
  ''            background: linear-gradient(135deg, var(--primary), var(--accent));\<newline>'' @
  ''            color: white;\<newline>'' @
  ''            padding: 4rem 0;\<newline>'' @
  ''            text-align: center;\<newline>'' @
  ''        }\<newline>'' @
  ''        .profile-img {\<newline>'' @
  ''            width: 180px;\<newline>'' @
  ''            height: 180px;\<newline>'' @
  ''            border-radius: 50%;\<newline>'' @
  ''            object-fit: cover;\<newline>'' @
  ''            border: 5px solid var(--accent);\<newline>'' @
  ''            margin-bottom: 2rem;\<newline>'' @
  ''        }\<newline>'' @
  ''        h1 { font-family: 'Montserrat', sans-serif; font-size: 2.5rem; margin-bottom: 1rem; }\<newline>'' @
  ''        h2 { color: var(--accent); margin: 2rem 0 1rem; }\<newline>'' @
  ''        section { padding: 2rem 0; }\<newline>'' @
  ''        .skills { display: flex; flex-wrap: wrap; gap: 10px; }\<newline>'' @
  ''        .skill {\<newline>'' @
  ''            background: var(--primary);\<newline>'' @
  ''            color: white;\<newline>'' @
  ''            padding: 0.5rem 1rem;\<newline>'' @
  ''            border-radius: 20px;\<newline>'' @
  ''            font-size: 0.9rem;\<newline>'' @
  ''        }\<newline>'' @
  ''        .social-links { display: flex; gap: 15px; margin-top: 1rem; }\<newline>'' @
  ''        .social-links a {\<newline>'' @
  ''            color: var(--accent);\<newline>'' @
  ''            font-size: 1.5rem;\<newline>'' @
  ''            text-decoration: none;\<newline>'' @
  ''            transition: color 0.3s;\<newline>'' @
  ''        }\<newline>'' @
  ''        .social-links a:hover {\<newline>'' @
  ''            color: var(--primary);\<newline>'' @
  ''        }\<newline>'' @
  ''        footer { text-align: center; padding: 2rem 0; color: var(--text-gray); }\<newline>'' @
  ''        .section-content { white-space: pre-line; }\<newline>'' @
  ''    </style>\<newline>''\<close>

text \<open>Lines 163 to 167.\<close>

definition page_body :: "string \<Rightarrow> string" where
\<open>page_body html =
  ''</head>\<newline>'' @
  ''<body>\<newline>'' @
  ''    '' @
  html @
  ''\<newline>'' @
  ''</body>\<newline>'' @
  ''</html>''\<close>

text \<open>The template literal that \<open>generatePortfolioHTML\<close> returns, its parts in order.\<close>

definition html_page :: "content_record \<Rightarrow> colors \<Rightarrow> string \<Rightarrow> string" where
  "html_page data colours html =
     page_head data @
     page_style colours @
     page_body html"

definition generatePortfolioHTML :: "clock \<Rightarrow> content_record \<Rightarrow> string \<Rightarrow> customizations \<Rightarrow> string" where
  "generatePortfolioHTML clock data template customizations =
     (let skillsList = skillsList_of data;
          year = getFullYear clock;
          colours = colors_of customizations;
          html = html_of clock template data skillsList colours
      in html_page data colours html)"

section \<open>PDF document composer (the pdfkit variant of \<open>server.js\<close>)\<close>

text \<open>
  What the route takes from pdfkit and from the JavaScript runtime: the page size of
  \<open>size: 'A4'\<close>, the width of a string at the current font size, and \<open>toUpperCase\<close>.
\<close>

record host =
  page_width :: real
  page_height :: real
  widthOfString :: "nat \<Rightarrow> string \<Rightarrow> real"
  toUpperCase :: "string \<Rightarrow> string"

text \<open>The populated Mongoose documents, with the properties the route reads.\<close>

record location =
  city :: "string option"
  country :: "string option"

record artist =
  name :: string
  email :: string
  bio :: "string option"
  category :: "string option"
  experience :: "string option"
  genres :: "string list option"
  location :: "location option"
  socialLinks :: "(string \<times> string option) list option"

record portfolio_section =
  type :: string
  title :: "string option"
  content :: "string option"

record portfolio =
  portfolio_id :: string
  artist :: "artist option"
  title :: string
  description :: "string option"
  sections :: "portfolio_section list"
  customizations :: "customizations option"

text \<open>
  The calls made on the pdfkit document, in the order the route makes them. A colour is
  a name or hex string, or an array of components; the \<open>y\<close> of a text is a number or
  the document's running \<open>doc.y\<close>.
\<close>

datatype color = Named string | Components "int option list"

datatype ypos = At real | DocY

record text_options =
  align :: "string option"
  width :: "real option"

datatype call =
    Rect real real real real
  | Fill color
  | FontSize nat
  | FillColor color
  | Text string real ypos text_options
  | MoveDown nat
  | AddPage
  | End

text \<open>
  The document: the pages already left behind, the calls drawn on the current page, the
  current font size (pdfkit starts at 12) and whether \<open>doc.end()\<close> was called.
\<close>

record doc =
  info :: "(string \<times> string) list"
  pages :: "call list list"
  page :: "call list"
  fontSize :: nat
  ended :: bool

definition PDFDocument :: "(string \<times> string) list \<Rightarrow> doc" where
  "PDFDocument i = \<lparr>info = i, pages = [], page = [], fontSize = 12, ended = False\<rparr>"

text \<open>
  Modelled from the spec: what pdfkit, which is not part of the repository, does with a
  call. A drawing call stays on the page it is made on and only \<open>addPage\<close> starts a
  page, the specification's reading of the library (its layout "never starts a new page
  if rows overflow the page bottom"). A page that pdfkit would start by itself, for a
  text running past the bottom margin, is not part of this model.
\<close>

fun do_call :: "call \<Rightarrow> doc \<Rightarrow> doc" where
  "do_call AddPage d = d\<lparr>pages := pages d @ [page d], page := []\<rparr>"
| "do_call End d = d\<lparr>ended := True\<rparr>"
| "do_call (FontSize n) d = d\<lparr>page := page d @ [FontSize n], fontSize := n\<rparr>"
| "do_call c d = d\<lparr>page := page d @ [c]\<rparr>"

definition run :: "call list \<Rightarrow> doc \<Rightarrow> doc" where
  "run cs d = fold do_call cs d"


definition no_options :: text_options where
  "no_options = \<lparr>align = None, width = None\<rparr>"

definition fill_of :: "rgb \<Rightarrow> color" where
  "fill_of c = Components [r c, g c, b c]"

text \<open>
  \<open>const colors = portfolio.customizations?.colors || { primary: '#B026FF', accent: '#FFD23F' }\<close>
\<close>

definition pdf_colors :: "portfolio \<Rightarrow> colors" where
  "pdf_colors portfolio =
     (case customizations portfolio of
        None \<Rightarrow> \<lparr>primary = Some ''#B026FF'', accent = Some ''#FFD23F'', background = None\<rparr>
      | Some c \<Rightarrow>
          (case colors c of
             None \<Rightarrow> \<lparr>primary = Some ''#B026FF'', accent = Some ''#FFD23F'', background = None\<rparr>
           | Some cs \<Rightarrow> cs))"

text \<open>\<open>s.replace('_', ' ')\<close>: the first underscore only.\<close>

fun replace_first :: "char \<Rightarrow> char \<Rightarrow> string \<Rightarrow> string" where
  "replace_first x y [] = []"
| "replace_first x y (c # cs) = (if c = x then y # cs else c # replace_first x y cs)"

text \<open>The accent band with its white label that heads every page after the cover.\<close>

definition header_band :: "host \<Rightarrow> rgb \<Rightarrow> string \<Rightarrow> call list" where
  "header_band h accentRgb label =
     [Rect 50 50 (page_width h - 100) 40, Fill (fill_of accentRgb),
      FontSize 18, FillColor (Named ''white''), Text label 60 (At 65) no_options]"

definition cover_page :: "host \<Rightarrow> portfolio \<Rightarrow> artist \<Rightarrow> rgb \<Rightarrow> rgb \<Rightarrow> call list" where
  "cover_page h portfolio a primaryRgb accentRgb =
     [Rect 0 0 (page_width h) 200, Fill (fill_of primaryRgb),
      FontSize 32, FillColor (Named ''white''),
      Text (artist.name a) 50 (At 80) \<lparr>align = Some ''center'', width = None\<rparr>,
      FontSize 18,
      Text (case category a of
              None \<Rightarrow> ''CREATIVE PROFESSIONAL''
            | Some c \<Rightarrow>
                (if toUpperCase h (replace_first CHR ''_'' CHR '' '' c) = []
                 then ''CREATIVE PROFESSIONAL''
                 else toUpperCase h (replace_first CHR ''_'' CHR '' '' c)))
        50 (At 120) \<lparr>align = Some ''center'', width = None\<rparr>,
      FontSize 14,
      Text ((case artist.experience a of None \<Rightarrow> ''undefined'' | Some e \<Rightarrow> toUpperCase h e)
            @ '' LEVEL'')
        50 (At 145) \<lparr>align = Some ''center'', width = None\<rparr>,
      Rect 50 180 (page_width h - 100) 3, Fill (fill_of accentRgb),
      FontSize 24, FillColor (fill_of primaryRgb),
      Text (portfolio.title portfolio) 50 (At 220) no_options, MoveDown 1]
     @ (if truthy (description portfolio)
        then [FontSize 12, FillColor (Named ''#333333''),
              Text (toStr (description portfolio)) 50 DocY
                \<lparr>align = Some ''justify'', width = Some (page_width h - 100)\<rparr>,
              MoveDown 2]
        else [])"

definition about_page :: "host \<Rightarrow> artist \<Rightarrow> rgb \<Rightarrow> call list" where
  "about_page h a accentRgb =
     (if truthy (bio a)
      then AddPage # header_band h accentRgb ''ABOUT THE ARTIST''
           @ [FontSize 12, FillColor (Named ''#333333''),
              Text (toStr (bio a)) 50 (At 110)
                \<lparr>align = Some ''justify'', width = Some (page_width h - 100)\<rparr>]
      else [])"

text \<open>The body of \<open>portfolio.sections.forEach\<close>.\<close>

definition section_page :: "host \<Rightarrow> rgb \<Rightarrow> portfolio_section \<Rightarrow> call list" where
  "section_page h accentRgb section =
     AddPage # header_band h accentRgb
                 (toUpperCase h (orElse (portfolio_section.title section) (type section)))
     @ (if truthy (content section)
        then [FontSize 12, FillColor (Named ''#333333''),
              Text (toStr (content section)) 50 (At 110)
                \<lparr>align = Some ''justify'', width = Some (page_width h - 100)\<rparr>]
        else [])"

text \<open>
  The body of \<open>portfolio.artist.genres.forEach\<close>, on the document and the two cursor
  variables \<open>skillX\<close> and \<open>skillY\<close>. The width is measured before the chip's own
  \<open>fontSize(10)\<close>, so at the font size the previous call left.
\<close>

definition skill_chip :: "host \<Rightarrow> rgb \<Rightarrow> string \<Rightarrow> doc \<times> real \<times> real \<Rightarrow> doc \<times> real \<times> real" where
  "skill_chip h primaryRgb genre st =
     (case st of (d, skillX, skillY) \<Rightarrow>
        (let skillWidth = widthOfString h (fontSize d) genre + 20;
             (skillX, skillY) =
                (if skillX + skillWidth > page_width h - 50 then (50, skillY + 35)
                 else (skillX, skillY));
             d = run [Rect skillX skillY skillWidth 25, Fill (fill_of primaryRgb),
                      FontSize 10, FillColor (Named ''white''),
                      Text genre (skillX + 10) (At (skillY + 8)) no_options] d
         in (d, skillX + skillWidth + 10, skillY)))"

definition skills_page :: "host \<Rightarrow> artist \<Rightarrow> rgb \<Rightarrow> rgb \<Rightarrow> doc \<Rightarrow> doc" where
  "skills_page h a primaryRgb accentRgb d =
     (case genres a of
        None \<Rightarrow> d
      | Some gs \<Rightarrow>
          (if length gs > 0
           then fst (fold (skill_chip h primaryRgb) gs
                       (run (AddPage # header_band h accentRgb ''SKILLS & SPECIALTIES'') d,
                        50, 120))
           else d))"

text \<open>\<open>platform.charAt(0).toUpperCase() + platform.slice(1)\<close>\<close>

definition capitalize :: "host \<Rightarrow> string \<Rightarrow> string" where
  "capitalize h platform = toUpperCase h (take 1 platform) @ drop 1 platform"

text \<open>\<open>xs.join(', ')\<close>\<close>

fun join_comma :: "string list \<Rightarrow> string" where
  "join_comma [] = []"
| "join_comma [x] = x"
| "join_comma (x # y # ys) = x @ '', '' @ join_comma (y # ys)"

text \<open>
  The body of \<open>Object.entries(portfolio.artist.socialLinks).forEach\<close>, on the document
  and \<open>contactY\<close>.
\<close>

definition social_link :: "host \<Rightarrow> string \<times> string option \<Rightarrow> doc \<times> real \<Rightarrow> doc \<times> real" where
  "social_link h entry st =
     (case (entry, st) of ((platform, url), (d, contactY)) \<Rightarrow>
        (if truthy url
         then (run [FontSize 12, FillColor (Named ''#0066cc''),
                    Text (capitalize h platform @ '': '' @ toStr url) 50 (At contactY)
                      no_options] d,
               contactY + 20)
         else (d, contactY)))"

definition contact_page :: "host \<Rightarrow> clock \<Rightarrow> artist \<Rightarrow> rgb \<Rightarrow> rgb \<Rightarrow> doc \<Rightarrow> doc" where
  "contact_page h clock a primaryRgb accentRgb d =
     (let d = run (AddPage # header_band h accentRgb ''CONTACT INFORMATION'') d;
          contactY = 120;
          d = run [FontSize 14, FillColor (fill_of primaryRgb),
                   Text ''Email:'' 50 (At contactY) no_options,
                   FontSize 12, FillColor (Named ''#333333''),
                   Text (artist.email a) 50 (At (contactY + 20)) no_options] d;
          contactY = contactY + 50;
          (d, contactY) =
             (case artist.location a of
                None \<Rightarrow> (d, contactY)
              | Some l \<Rightarrow>
                  (if truthy (city l) \<or> truthy (country l)
                   then (run [FontSize 14, FillColor (fill_of primaryRgb),
                              Text ''Location:'' 50 (At contactY) no_options,
                              FontSize 12, FillColor (Named ''#333333''),
                              Text (join_comma
                                      (map toStr (filter truthy [city l, country l])))
                                50 (At (contactY + 20)) no_options] d,
                         contactY + 50)
                   else (d, contactY)));
          (d, contactY) =
             (case socialLinks a of
                None \<Rightarrow> (d, contactY)
              | Some links \<Rightarrow>
                  fold (social_link h) links
                    (run [FontSize 14, FillColor (fill_of primaryRgb),
                          Text ''Connect Online:'' 50 (At contactY) no_options] d,
                     contactY + 25))
      in run [FontSize 8, FillColor (Named ''#666666''),
              Text (''Generated by KatikaNaMe Platform ''
                    @ [CHR 0xC3, CHR 0xA2, CHR 0xE2, CHR 0x82, CHR 0xAC, CHR 0xC2, CHR 0xA2]
                    @ '' '' @ toLocaleDateString clock)
                50 (At (page_height h - 30))
                \<lparr>align = Some ''center'', width = Some (page_width h - 100)\<rparr>] d)"

text \<open>The drawing of the whole document, from \<open>new PDFDocument\<close> to \<open>doc.end()\<close>.\<close>

definition compose_pdf :: "host \<Rightarrow> clock \<Rightarrow> portfolio \<Rightarrow> artist \<Rightarrow> doc" where
  "compose_pdf h clock portfolio a =
     (let d = PDFDocument [(''Title'', portfolio.title portfolio), (''Author'', artist.name a),
                           (''Subject'', ''Professional Portfolio'')];
          colours = pdf_colors portfolio;
          primaryRgb = hexToRgb (toStr (primary colours));
          accentRgb = hexToRgb (toStr (accent colours));
          d = run (cover_page h portfolio a primaryRgb accentRgb) d;
          d = run (about_page h a accentRgb) d;
          d = fold (\<lambda>section. run (section_page h accentRgb section)) (sections portfolio) d;
          d = skills_page h a primaryRgb accentRgb d;
          d = contact_page h clock a primaryRgb accentRgb d
      in do_call End d)"

text \<open>
  The route \<open>POST /api/portfolios/:id/generate-pdf\<close>: \<open>found\<close> is what
  \<open>Portfolio.findById(...).populate('artist')\<close> returned. A portfolio whose artist did not
  populate makes \<open>portfolio.artist.name\<close> throw, which the \<open>catch\<close> answers with 500.
\<close>

definition pdf_filename :: "string \<Rightarrow> clock \<Rightarrow> string" where
  "pdf_filename pid clock = ''portfolio-'' @ pid @ ''-'' @ numToStr (now clock) @ ''.pdf''"

record generated =
  downloadUrl :: string
  filename :: string
  document :: doc

datatype response = NotFound string | ServerError | Generated generated

definition generate_pdf :: "host \<Rightarrow> clock \<Rightarrow> portfolio option \<Rightarrow> response" where
  "generate_pdf h clock found =
     (case found of
        None \<Rightarrow> NotFound ''Portfolio not found''
      | Some portfolio \<Rightarrow>
          (let filename = pdf_filename (portfolio_id portfolio) clock
           in case artist portfolio of
                None \<Rightarrow> ServerError
              | Some a \<Rightarrow>
                  Generated \<lparr>downloadUrl = ''/uploads/portfolios/'' @ filename,
                             filename = filename,
                             document = compose_pdf h clock portfolio a\<rparr>))"

section \<open>PDF generation in the html-pdf variant (\<open>src/backend/server.js\<close>)\<close>

text \<open>
  \<open>path.join('generated/pdfs', `${portfolio.id}.pdf`)\<close> for an id without path separators
  (the ids are UUIDs), and the URL the route answers with.
\<close>

definition pdfFilePath :: "string \<Rightarrow> string" where
  "pdfFilePath pid = ''generated/pdfs/'' @ pid @ ''.pdf''"

definition pdfUrl :: "string \<Rightarrow> string" where
  "pdfUrl pid = ''/pdfs/'' @ pid @ ''.pdf''"

text \<open>
  The route \<open>POST /api/portfolios/:id/generate-pdf\<close> of this variant, on the files
  written so far (path to content). \<open>found\<close> is the portfolio the id names, \<open>merged\<close> the
  record \<open>{...artist, ...portfolio, skills: artist.genres}\<close> when its artist is found, and
  \<open>toPdf\<close> the conversion done by html-pdf, \<open>None\<close> when it reports an error.
\<close>

record stored_portfolio =
  stored_id :: string
  stored_template :: string
  stored_customizations :: customizations

datatype reply = Status404 string | Status500 string | Download string

definition generate_pdf_file ::
  "(string \<Rightarrow> string option) \<Rightarrow> clock \<Rightarrow> (string \<rightharpoonup> string) \<Rightarrow> stored_portfolio option
     \<Rightarrow> content_record option \<Rightarrow> (string \<rightharpoonup> string) \<times> reply" where
  "generate_pdf_file toPdf clock files found merged =
     (case found of
        None \<Rightarrow> (files, Status404 ''Portfolio not found'')
      | Some portfolio \<Rightarrow>
          (case merged of
             None \<Rightarrow> (files, Status404 ''Artist not found'')
           | Some data \<Rightarrow>
               (let htmlContent = generatePortfolioHTML clock data (stored_template portfolio)
                                    (stored_customizations portfolio)
                in case toPdf htmlContent of
                     None \<Rightarrow> (files, Status500 ''Failed to generate PDF'')
                   | Some bytes \<Rightarrow>
                       (files(pdfFilePath (stored_id portfolio) \<mapsto> bytes),
                        Download (pdfUrl (stored_id portfolio))))))"

section \<open>Definitions written from the specification\<close>

text \<open>
  The two hexadecimal digits of a colour component, in upper or lower case: what a
  well-formed 6-digit colour string is made of.
\<close>

definition hex_digit :: "bool \<Rightarrow> nat \<Rightarrow> char" where
  "hex_digit upper n =
     (if n < 10 then char_of (48 + n) else if upper then char_of (55 + n) else char_of (87 + n))"

definition hex2 :: "bool \<Rightarrow> nat \<Rightarrow> string" where
  "hex2 upper n = [hex_digit upper (n div 16), hex_digit upper (n mod 16)]"




section \<open>Auxiliary definitions for the proofs\<close>

text \<open>The first bytes of the white-space code points.\<close>

definition space_heads :: "char list" where
  "space_heads = [CHR 0x09, CHR 0x0A, CHR 0x0B, CHR 0x0C, CHR 0x0D, CHR 0x20,
                  CHR 0xC2, CHR 0xE1, CHR 0xE2, CHR 0xE3, CHR 0xEF]"





section \<open>Example inputs\<close>

text \<open>
  The record of the specification's end-to-end scenario, a record with every optional
  property missing, and a clock.
\<close>

definition example_data :: content_record where
  "example_data =
     \<lparr>content_record.name = ''Ama K.'', content_record.title = None,
      content_record.experience = None, content_record.location = None,
      aboutMe = Some [], jobs = None, skills = SkillsArray [''vocals'', ''guitar''],
      services = None, testimonials = None,
      instagram = Some ''https://instagram.com/ama'', youtube = None, tiktok = None,
      facebook = None, twitter = None, website = None,
      content_record.email = ''ama@x.com'', phone = None\<rparr>"

definition bare_data :: content_record where
  "bare_data =
     \<lparr>content_record.name = ''Ama K.'', content_record.title = None,
      content_record.experience = None, content_record.location = None,
      aboutMe = None, jobs = None, skills = SkillsAbsent,
      services = None, testimonials = None,
      instagram = None, youtube = None, tiktok = None,
      facebook = None, twitter = None, website = None,
      content_record.email = ''ama@x.com'', phone = None\<rparr>"

definition example_clock :: clock where
  "example_clock = \<lparr>now = 1762041600000, getFullYear = 2025, toLocaleDateString = ''11/2/2025''\<rparr>"

definition later_clock :: clock where
  "later_clock = \<lparr>now = 1762041660000, getFullYear = 2025, toLocaleDateString = ''11/2/2025''\<rparr>"

definition example_host :: host where
  "example_host =
     \<lparr>page_width = 595.28, page_height = 841.89,
      widthOfString = (\<lambda>size s. real size * real (length s) / 2),
      toUpperCase = (\<lambda>s. s)\<rparr>"

definition example_artist :: artist where
  "example_artist =
     \<lparr>name = ''Ama K.'', email = ''ama@x.com'', bio = Some ''Singer.'',
      category = Some ''musician'', experience = Some ''advanced'',
      genres = Some [''vocals'', ''guitar'',
                     ''improvised percussion on found objects, recorded live in the courtyards of Jamestown'',
                     ''oud''],
      location = Some \<lparr>city = Some ''Accra'', country = None\<rparr>,
      socialLinks = Some [(''instagram'', Some ''https://instagram.com/ama''), (''youtube'', None)]\<rparr>"

definition example_portfolio :: portfolio where
  "example_portfolio =
     \<lparr>portfolio_id = ''p1'', artist = Some example_artist, title = ''Ama K. Portfolio'',
      description = None,
      sections = [\<lparr>type = ''gallery'', title = None, content = None\<rparr>,
                  \<lparr>type = ''text'', title = Some ''Shows'', content = Some ''Accra, 2024''\<rparr>],
      customizations = None\<rparr>"

definition example_stored :: stored_portfolio where
  "example_stored =
     \<lparr>stored_id = ''p1'', stored_template = ''modern'', stored_customizations = \<lparr>colors = None\<rparr>\<rparr>"

section \<open>Colours: \<open>hexToRgb\<close>\<close>

lemma hex_val_bound: "hex_val c = Some v \<Longrightarrow> v < 16"
  by (auto simp: hex_val_def Let_def split: if_splits)

lemma lead_len_zero:
  assumes "\<forall>w\<in>set ws. w \<noteq> [] \<and> hd w \<noteq> c"
  shows "lead_len ws (c # cs) = 0"
proof -
  have "\<not> prefix w (c # cs)" if "w \<in> set ws" for w
  proof -
    from that assms have "w \<noteq> []" and "hd w \<noteq> c" by auto
    then show ?thesis by (auto simp: neq_Nil_conv)
  qed
  then have "find (\<lambda>w. prefix w (c # cs)) ws = None"
    by (simp add: find_None_iff)
  then show ?thesis by (simp add: lead_len_def)
qed

lemma js_whitespace_heads: "\<forall>w\<in>set js_whitespace. w \<noteq> [] \<and> hd w \<in> set space_heads"
  by (simp add: js_whitespace_def space_heads_def)

lemma is_hex_range:
  "is_hex c \<longleftrightarrow> (48 \<le> (of_char c :: nat) \<and> (of_char c :: nat) \<le> 57) \<or> (97 \<le> (of_char c :: nat) \<and> (of_char c :: nat) \<le> 102)
     \<or> (65 \<le> (of_char c :: nat) \<and> (of_char c :: nat) \<le> 70)"
  by (auto simp: is_hex_def hex_val_def Let_def)

lemma is_hex_not_space_head: "is_hex c \<Longrightarrow> c \<notin> set space_heads"
  by (auto simp: is_hex_range space_heads_def)

lemma is_hex_no_space: "is_hex c \<Longrightarrow> lead_len js_whitespace (c # cs) = 0"
  using js_whitespace_heads is_hex_not_space_head by (intro lead_len_zero) blast

lemma trimStart_hex: "is_hex c \<Longrightarrow> trimStart (c # cs) = c # cs"
  by (simp add: trimStart_def is_hex_no_space strip.simps [of _ "c # cs"])

lemma is_hex_no_sign: "is_hex c \<Longrightarrow> c \<noteq> CHR ''-'' \<and> c \<noteq> CHR ''+'' \<and> c \<noteq> CHR ''x'' \<and> c \<noteq> CHR ''X'' \<and> c \<noteq> CHR ''#''"
  by (auto simp: is_hex_range)

lemma parseInt16_pair:
  assumes "hex_val c1 = Some v1" and "hex_val c2 = Some v2"
  shows "parseInt16 [c1, c2] = Some (int (16 * v1 + v2))"
proof -
  have h1: "is_hex c1" and h2: "is_hex c2" using assms by (simp_all add: is_hex_def)
  have "\<not> prefix ''0x'' [c1, c2]" "\<not> prefix ''0X'' [c1, c2]"
    using is_hex_no_sign [OF h2] by auto
  then show ?thesis
    using assms h1 is_hex_no_sign [OF h1]
    by (simp add: parseInt16_def trimStart_hex Let_def del: Cons_prefix_Cons)
qed

lemma hex_groups_Some:
  assumes "hex_groups hex = Some (g1, g2, g3)"
  shows "\<exists>d1 d2 d3 d4 d5 d6. g1 = [d1, d2] \<and> g2 = [d3, d4] \<and> g3 = [d5, d6]
           \<and> list_all is_hex [d1, d2, d3, d4, d5, d6]
           \<and> (hex = [d1, d2, d3, d4, d5, d6] \<or> hex = CHR ''#'' # [d1, d2, d3, d4, d5, d6])"
proof -
  define body where "body = (case hex of [] \<Rightarrow> hex | c # rest \<Rightarrow> if c = CHR ''#'' then rest else hex)"
  from assms have len: "length body = 6" and hx: "list_all is_hex body"
    and gs: "g1 = take 2 body" "g2 = take 2 (drop 2 body)" "g3 = drop 4 body"
    by (auto simp: hex_groups_def body_def Let_def split: if_splits)
  from len obtain d1 d2 d3 d4 d5 d6 where body: "body = [d1, d2, d3, d4, d5, d6]"
    by (auto simp: length_Suc_conv eval_nat_numeral)
  have "hex = body \<or> hex = CHR ''#'' # body"
    by (auto simp: body_def split: list.splits)
  with body hx gs show ?thesis by auto
qed

lemma hex_groups_accepts:
  "hex_groups hex \<noteq> None \<longleftrightarrow>
     (\<exists>ds. length ds = 6 \<and> list_all is_hex ds \<and> (hex = ds \<or> hex = CHR ''#'' # ds))"
proof
  assume "hex_groups hex \<noteq> None"
  then obtain g1 g2 g3 where "hex_groups hex = Some (g1, g2, g3)" by auto
  from hex_groups_Some [OF this] show "\<exists>ds. length ds = 6 \<and> list_all is_hex ds \<and> (hex = ds \<or> hex = CHR ''#'' # ds)"
    by (intro exI [of _ "g1 @ g2 @ g3"]) auto
next
  assume "\<exists>ds. length ds = 6 \<and> list_all is_hex ds \<and> (hex = ds \<or> hex = CHR ''#'' # ds)"
  then obtain ds where ds: "length ds = 6" "list_all is_hex ds" "hex = ds \<or> hex = CHR ''#'' # ds" by blast
  from ds(1) obtain d rest where "ds = d # rest" by (cases ds) auto
  with ds(2) have "d \<noteq> CHR ''#''" using is_hex_no_sign by auto
  with ds \<open>ds = d # rest\<close> show "hex_groups hex \<noteq> None"
    by (auto simp: hex_groups_def Let_def)
qed

lemma hexToRgb_digits:
  assumes "hex_val d1 = Some v1" "hex_val d2 = Some v2" "hex_val d3 = Some v3"
    "hex_val d4 = Some v4" "hex_val d5 = Some v5" "hex_val d6 = Some v6"
  shows "hexToRgb [d1, d2, d3, d4, d5, d6] =
           \<lparr>r = Some (int (16 * v1 + v2)), g = Some (int (16 * v3 + v4)), b = Some (int (16 * v5 + v6))\<rparr>"
    and "hexToRgb (CHR ''#'' # [d1, d2, d3, d4, d5, d6]) =
           \<lparr>r = Some (int (16 * v1 + v2)), g = Some (int (16 * v3 + v4)), b = Some (int (16 * v5 + v6))\<rparr>"
proof -
  have "is_hex d1" using assms by (simp add: is_hex_def)
  then have "d1 \<noteq> CHR ''#''" using is_hex_no_sign by blast
  then have g: "hex_groups [d1, d2, d3, d4, d5, d6] = Some ([d1, d2], [d3, d4], [d5, d6])"
    "hex_groups (CHR ''#'' # [d1, d2, d3, d4, d5, d6]) = Some ([d1, d2], [d3, d4], [d5, d6])"
    using assms by (simp_all add: hex_groups_def is_hex_def)
  show "hexToRgb [d1, d2, d3, d4, d5, d6] =
           \<lparr>r = Some (int (16 * v1 + v2)), g = Some (int (16 * v3 + v4)), b = Some (int (16 * v5 + v6))\<rparr>"
    using assms by (simp add: hexToRgb_def g parseInt16_pair)
  show "hexToRgb (CHR ''#'' # [d1, d2, d3, d4, d5, d6]) =
           \<lparr>r = Some (int (16 * v1 + v2)), g = Some (int (16 * v3 + v4)), b = Some (int (16 * v5 + v6))\<rparr>"
    using assms by (simp add: hexToRgb_def g parseInt16_pair)
qed

lemma hexToRgb_range:
  "\<exists>x y z. hexToRgb hex = \<lparr>r = Some x, g = Some y, b = Some z\<rparr>
     \<and> 0 \<le> x \<and> x \<le> 255 \<and> 0 \<le> y \<and> y \<le> 255 \<and> 0 \<le> z \<and> z \<le> 255"
proof (cases "hex_groups hex")
  case None
  then show ?thesis by (simp add: hexToRgb_def)
next
  case (Some t)
  then obtain g1 g2 g3 where t: "hex_groups hex = Some (g1, g2, g3)" by (cases t) auto
  from hex_groups_Some [OF t] obtain d1 d2 d3 d4 d5 d6 where
    gs: "g1 = [d1, d2]" "g2 = [d3, d4]" "g3 = [d5, d6]" and hx: "list_all is_hex [d1, d2, d3, d4, d5, d6]"
    by blast
  from hx obtain v1 v2 v3 v4 v5 v6 where vs: "hex_val d1 = Some v1" "hex_val d2 = Some v2"
    "hex_val d3 = Some v3" "hex_val d4 = Some v4" "hex_val d5 = Some v5" "hex_val d6 = Some v6"
    by (auto simp: is_hex_def)
  have bounds: "v1 < 16" "v2 < 16" "v3 < 16" "v4 < 16" "v5 < 16" "v6 < 16"
    using vs hex_val_bound by blast+
  have "hexToRgb hex = \<lparr>r = Some (int (16 * v1 + v2)), g = Some (int (16 * v3 + v4)), b = Some (int (16 * v5 + v6))\<rparr>"
    using t gs vs by (simp add: hexToRgb_def parseInt16_pair)
  with bounds show ?thesis by simp
qed

lemma hex_val_digit: "n < 16 \<Longrightarrow> hex_val (hex_digit up n) = Some n"
  by (auto simp: hex_val_def hex_digit_def Let_def)

lemma hexToRgb_roundtrip:
  assumes "x < 256" "y < 256" "z < 256"
  shows "hexToRgb (hex2 up x @ hex2 up y @ hex2 up z) = \<lparr>r = Some (int x), g = Some (int y), b = Some (int z)\<rparr>"
    and "hexToRgb (CHR ''#'' # hex2 up x @ hex2 up y @ hex2 up z) = \<lparr>r = Some (int x), g = Some (int y), b = Some (int z)\<rparr>"
proof -
  have d: "x div 16 < 16" "x mod 16 < 16" "y div 16 < 16" "y mod 16 < 16" "z div 16 < 16" "z mod 16 < 16"
    using assms by auto
  note v = d [THEN hex_val_digit, of up]
  show "hexToRgb (hex2 up x @ hex2 up y @ hex2 up z) = \<lparr>r = Some (int x), g = Some (int y), b = Some (int z)\<rparr>"
    using hexToRgb_digits(1) [OF v] by (simp add: hex2_def)
  show "hexToRgb (CHR ''#'' # hex2 up x @ hex2 up y @ hex2 up z) = \<lparr>r = Some (int x), g = Some (int y), b = Some (int z)\<rparr>"
    using hexToRgb_digits(2) [OF v] by (simp add: hex2_def)
qed

lemma hexToRgb_purple: "hexToRgb ''#B026FF'' = \<lparr>r = Some 176, g = Some 38, b = Some 255\<rparr>"
proof -
  have "hex_val CHR ''B'' = Some 11" "hex_val CHR ''0'' = Some 0" "hex_val CHR ''2'' = Some 2"
    "hex_val CHR ''6'' = Some 6" "hex_val CHR ''F'' = Some 15" "hex_val CHR ''F'' = Some 15"
    by (simp_all add: hex_val_def)
  from hexToRgb_digits(2) [OF this] show ?thesis by simp
qed

lemma char_eq_code: "c = d \<longleftrightarrow> (of_char c :: nat) = of_char d"
  by simp

lemma is_hex_chars: "is_hex c \<longleftrightarrow> c \<in> set ''0123456789abcdefABCDEF''"
proof -
  have "c \<in> set ''0123456789abcdefABCDEF'' \<longleftrightarrow>
          (of_char c :: nat) \<in> {48, 49, 50, 51, 52, 53, 54, 55, 56, 57, 97, 98, 99, 100, 101, 102,
                                 65, 66, 67, 68, 69, 70}"
    by (simp add: char_eq_code [of c] del: of_char_eq_iff)
  also have "\<dots> \<longleftrightarrow> is_hex c"
    unfolding is_hex_range by (simp; arith)
  finally show ?thesis by simp
qed

section \<open>Numbers in decimal\<close>

lemma digit_char_digit: "n < 10 \<Longrightarrow> digit_char n \<in> set ''0123456789''"
  unfolding digit_char_def by (rule nth_mem) simp

lemma decimal_digits: "set (decimal n) \<subseteq> set ''0123456789''"
proof (induction n rule: decimal.induct)
  case (1 n)
  show ?case
  proof (cases "n < 10")
    case True
    then show ?thesis
      using digit_char_digit [of n] by (subst decimal.simps) simp
  next
    case False
    have "n mod 10 < 10" by simp
    from digit_char_digit [OF this] 1 False show ?thesis
      by (subst decimal.simps) simp
  qed
qed

lemma decimal_nonempty: "decimal n \<noteq> []"
  by (subst decimal.simps) simp


lemma digit_char_inj:
  assumes "m < 10" and "n < 10" and "digit_char m = digit_char n"
  shows "m = n"
proof -
  have "distinct ''0123456789''" by simp
  with assms show ?thesis
    unfolding digit_char_def by (simp add: nth_eq_iff_index_eq)
qed

lemma decimal_single: "length (decimal n) = 1 \<longleftrightarrow> n < 10"
proof (cases "n < 10")
  case True
  then show ?thesis by (subst decimal.simps) simp
next
  case False
  then have "length (decimal n) = Suc (length (decimal (n div 10)))"
    by (subst decimal.simps) simp
  with decimal_nonempty [of "n div 10"] False show ?thesis
    by (cases "decimal (n div 10)") auto
qed

lemma decimal_inj: "decimal m = decimal n \<Longrightarrow> m = n"
proof (induction m arbitrary: n rule: decimal.induct)
  case (1 m)
  show ?case
  proof (cases "m < 10")
    case True
    with 1(2) have "n < 10"
      using decimal_single [of m] decimal_single [of n] by simp
    with True 1(2) show ?thesis
      using digit_char_inj [of m n] by (simp add: decimal.simps [of m] decimal.simps [of n])
  next
    case False
    with 1(2) have big: "\<not> n < 10"
      using decimal_single [of m] decimal_single [of n] by simp
    from False big 1(2) have eq: "decimal (m div 10) = decimal (n div 10)"
      and last: "digit_char (m mod 10) = digit_char (n mod 10)"
      by (simp_all add: decimal.simps [of m] decimal.simps [of n])
    from 1(1) [OF False eq] have "m div 10 = n div 10" .
    moreover from last have "m mod 10 = n mod 10"
      using digit_char_inj [of "m mod 10" "n mod 10"] by simp
    ultimately show ?thesis
      by (metis div_mult_mod_eq)
  qed
qed

lemma decimal_no_minus: "CHR ''-'' \<notin> set (decimal n)"
  using decimal_digits [of n] by auto

lemma numToStr_inj: "numToStr i = numToStr j \<Longrightarrow> i = j"
proof -
  assume eq: "numToStr i = numToStr j"
  have hd_dec: "decimal n \<noteq> CHR ''-'' # s" and hd_dec': "CHR ''-'' # s \<noteq> decimal n" for n s
    using decimal_no_minus [of n] by (metis list.set_intros(1))+
  show "i = j"
  proof (cases "i < 0")
    case True
    with eq hd_dec hd_dec' have "j < 0"
      by (auto simp: numToStr_def split: if_splits)
    with True eq have "decimal (nat (- i)) = decimal (nat (- j))"
      by (simp add: numToStr_def)
    from decimal_inj [OF this] True \<open>j < 0\<close> show ?thesis by simp
  next
    case False
    with eq hd_dec hd_dec' have "\<not> j < 0"
      by (auto simp: numToStr_def split: if_splits)
    with False eq have "decimal (nat i) = decimal (nat j)"
      by (simp add: numToStr_def)
    from decimal_inj [OF this] False \<open>\<not> j < 0\<close> show ?thesis by simp
  qed
qed

section \<open>Searching a rendered text\<close>











section \<open>The parts of the modern template\<close>












section \<open>The HTML composer\<close>

lemma lead_len_Nil: "lead_len ws [] = 0"
  by (auto simp: lead_len_def find_Some_iff split: option.splits)

lemma strip_Nil: "strip ws [] = []"
  by (simp add: strip.simps [of ws "[]"] lead_len_Nil)

lemma trim_Nil: "trim [] = []"
  by (simp add: trim_def trimStart_def trimEnd_def strip_Nil)

lemma generatePortfolioHTML_modern:
  assumes "template \<noteq> ''classic''" and "template \<noteq> ''artistic''"
  shows "generatePortfolioHTML clock data template cust =
           html_page data (colors_of cust)
             (generateModernTemplate clock data (skillsList_of data) (colors_of cust))"
  using assms by (simp add: generatePortfolioHTML_def html_of_def Let_def)

lemma sublist_left: "sublist P A \<Longrightarrow> sublist P (A @ B)"
  by (metis sublist_append)

lemma sublist_right: "sublist P B \<Longrightarrow> sublist P (A @ B)"
  by (metis sublist_append)

lemma page_holds:
  shows "sublist P (page_head data) \<Longrightarrow> sublist P (html_page data colours html)"
    and "sublist P (page_style colours) \<Longrightarrow> sublist P (html_page data colours html)"
    and "sublist P html \<Longrightarrow> sublist P (html_page data colours html)"
  unfolding html_page_def page_body_def
  by (intro sublist_left, assumption) (intro sublist_right sublist_left, assumption)+

lemma modern_holds:
  assumes "sublist P (modern_header d) \<or> sublist P (modern_about d)
           \<or> sublist P (modern_experience d) \<or> sublist P (modern_skills sl)
           \<or> sublist P (modern_services d) \<or> sublist P (modern_testimonials d)
           \<or> sublist P (modern_connect d) \<or> sublist P (modern_footer k d)"
  shows "sublist P (generateModernTemplate k d sl c)"
  using assms unfolding generateModernTemplate_def
  by (auto simp: sublist_append)





text \<open>The three template bodies differ from their first line on.\<close>

lemma templates_differ:
  shows "generateModernTemplate k d sl c \<noteq> generateClassicTemplate k d sl c"
    and "generateModernTemplate k d sl c \<noteq> generateArtisticTemplate k d sl c"
    and "generateClassicTemplate k d sl c \<noteq> generateArtisticTemplate k d sl c"
proof -
  have m: "take 13 (generateModernTemplate k d sl c) = ''\<newline>    <header>''"
    unfolding generateModernTemplate_def modern_header_def by simp
  have cl: "take 13 (generateClassicTemplate k d sl c) = ''\<newline>    <div cla''"
    unfolding generateClassicTemplate_def by simp
  have a: "take 13 (generateArtisticTemplate k d sl c) = ''\<newline>    <header ''"
    unfolding generateArtisticTemplate_def by simp
  show "generateModernTemplate k d sl c \<noteq> generateClassicTemplate k d sl c"
    using m cl by auto
  show "generateModernTemplate k d sl c \<noteq> generateArtisticTemplate k d sl c"
    using m a by auto
  show "generateClassicTemplate k d sl c \<noteq> generateArtisticTemplate k d sl c"
    using cl a by auto
qed

section \<open>The PDF composer\<close>



lemma run_append: "run (cs @ ds) d = run ds (run cs d)"
  by (simp add: run_def)
































text \<open>The file name of the pdfkit variant, and what the clock does to a document.\<close>

lemma pdf_filename_eq: "pdf_filename pid k1 = pdf_filename pid k2 \<longleftrightarrow> now k1 = now k2"
  by (auto simp: pdf_filename_def dest: numToStr_inj)



text \<open>
  C3: \<open>hexToRgb\<close> is total. For every string it returns three components that are
  numbers between 0 and 255; when the pattern does not match, the result is the fallback
  176, 38, 255. The pattern matches exactly the strings of six hexadecimal digits, in
  either case, with an optional leading \<open>#\<close>. A well-formed colour string is read back
  to the components it was written from, and \<open>#B026FF\<close> gives 176, 38, 255.
\<close>

theorem hexToRgb_total:
  "(\<exists>x y z. hexToRgb hex = \<lparr>r = Some x, g = Some y, b = Some z\<rparr>
      \<and> 0 \<le> x \<and> x \<le> 255 \<and> 0 \<le> y \<and> y \<le> 255 \<and> 0 \<le> z \<and> z \<le> 255)
   \<and> (hex_groups hex = None \<longrightarrow> hexToRgb hex = \<lparr>r = Some 176, g = Some 38, b = Some 255\<rparr>)
   \<and> (hex_groups hex \<noteq> None \<longleftrightarrow>
        (\<exists>ds. length ds = 6 \<and> set ds \<subseteq> set ''0123456789abcdefABCDEF''
           \<and> (hex = ds \<or> hex = CHR ''#'' # ds)))
   \<and> (red < 256 \<and> green < 256 \<and> blue < 256 \<longrightarrow>
        hexToRgb (hex2 upper red @ hex2 upper green @ hex2 upper blue)
          = \<lparr>r = Some (int red), g = Some (int green), b = Some (int blue)\<rparr>
        \<and> hexToRgb (CHR ''#'' # hex2 upper red @ hex2 upper green @ hex2 upper blue)
          = \<lparr>r = Some (int red), g = Some (int green), b = Some (int blue)\<rparr>)
   \<and> hexToRgb ''#B026FF'' = \<lparr>r = Some 176, g = Some 38, b = Some 255\<rparr>"
proof -
  have chars: "list_all is_hex ds \<longleftrightarrow> set ds \<subseteq> set ''0123456789abcdefABCDEF''" for ds
    unfolding list_all_iff is_hex_chars by blast
  have "hex_groups hex \<noteq> None \<longleftrightarrow>
        (\<exists>ds. length ds = 6 \<and> set ds \<subseteq> set ''0123456789abcdefABCDEF''
           \<and> (hex = ds \<or> hex = CHR ''#'' # ds))"
    unfolding hex_groups_accepts chars ..
  moreover have "hex_groups hex = None \<longrightarrow> hexToRgb hex = \<lparr>r = Some 176, g = Some 38, b = Some 255\<rparr>"
    by (simp add: hexToRgb_def)
  ultimately show ?thesis
    using hexToRgb_range [of hex] hexToRgb_roundtrip [of red green blue upper] hexToRgb_purple
    by blast
qed

theorem hexToRgb_total_witness:
  "hex_groups ''12345'' = None
   \<and> hexToRgb ''12345'' = \<lparr>r = Some 176, g = Some 38, b = Some 255\<rparr>
   \<and> hexToRgb (CHR ''#'' # hex2 False 10 @ hex2 False 10 @ hex2 False 18)
         = \<lparr>r = Some 10, g = Some 10, b = Some 18\<rparr>"
proof -
  have none: "hex_groups ''12345'' = None"
    by (simp add: hex_groups_def)
  have small: "(10::nat) < 256 \<and> (10::nat) < 256 \<and> (18::nat) < 256"
    by simp
  from hexToRgb_total [of "''12345''" 10 10 18 False] none small show ?thesis
    by simp
qed

text \<open>
  C7: the template selector maps \<open>modern\<close> to the modern body, \<open>classic\<close> to the classic
  one, \<open>artistic\<close> to the artistic one and every other string, the empty one included, to
  the modern body. It is a total function: there is no error to signal. The document is
  the page around the selected body, and the three bodies are different texts.
\<close>

theorem template_selector:
  "html_of clock ''modern'' data skillsList colours
     = generateModernTemplate clock data skillsList colours
   \<and> html_of clock ''classic'' data skillsList colours
     = generateClassicTemplate clock data skillsList colours
   \<and> html_of clock ''artistic'' data skillsList colours
     = generateArtisticTemplate clock data skillsList colours
   \<and> (template \<noteq> ''classic'' \<and> template \<noteq> ''artistic'' \<longrightarrow>
        html_of clock template data skillsList colours
          = generateModernTemplate clock data skillsList colours)
   \<and> generatePortfolioHTML clock data template cust
     = html_page data (colors_of cust)
         (html_of clock template data (skillsList_of data) (colors_of cust))
   \<and> generateModernTemplate clock data skillsList colours
     \<noteq> generateClassicTemplate clock data skillsList colours
   \<and> generateModernTemplate clock data skillsList colours
     \<noteq> generateArtisticTemplate clock data skillsList colours
   \<and> generateClassicTemplate clock data skillsList colours
     \<noteq> generateArtisticTemplate clock data skillsList colours"
  using templates_differ [of clock data skillsList colours]
  by (simp add: html_of_def generatePortfolioHTML_def Let_def)

theorem template_selector_witness:
  "html_of example_clock [] example_data [''vocals''] (colors_of \<lparr>colors = None\<rparr>)
     = generateModernTemplate example_clock example_data [''vocals''] (colors_of \<lparr>colors = None\<rparr>)
   \<and> html_of example_clock ''Classic'' example_data [''vocals''] (colors_of \<lparr>colors = None\<rparr>)
     = generateModernTemplate example_clock example_data [''vocals''] (colors_of \<lparr>colors = None\<rparr>)"
proof -
  have 1: "[] \<noteq> ''classic'' \<and> [] \<noteq> ''artistic''"
    by simp
  have 2: "''Classic'' \<noteq> ''classic'' \<and> ''Classic'' \<noteq> ''artistic''"
    by simp
  from 1 2
    template_selector [of example_clock example_data "[''vocals'']" "colors_of \<lparr>colors = None\<rparr>" "[]"]
    template_selector [of example_clock example_data "[''vocals'']" "colors_of \<lparr>colors = None\<rparr>" "''Classic''"]
  show ?thesis by blast
qed




text \<open>
  C9: when \<open>skills\<close> is missing or the empty string, the comma-split-and-trim fallback
  gives the list with one empty string, not the empty list, and the skills block of the
  document holds exactly one chip, with an empty text.
\<close>

theorem skills_fallback_one_empty_chip:
  \<open>(skills data = SkillsAbsent \<or> skills data = SkillsString [] \<longrightarrow>
      skillsList_of data = [[]]
      \<and> concat (map (\<lambda>skill. ''<span class="skill">'' @ skill @ ''</span>'') (skillsList_of data))
          = ''<span class="skill"></span>''
      \<and> modern_skills (skillsList_of data)
          = ''        <section>\<newline>'' @
            ''            <h2>Skills</h2>\<newline>'' @
            ''            <div class="skills">\<newline>'' @
            ''                <span class="skill"></span>\<newline>'' @
            ''            </div>\<newline>'' @
            ''        </section>\<newline>'' @
            ''\<newline>''
      \<and> (template \<noteq> ''classic'' \<and> template \<noteq> ''artistic'' \<longrightarrow>
           sublist (modern_skills [[]]) (generatePortfolioHTML clock data template cust)))\<close>
  (is \<open>_ \<longrightarrow> ?chip\<close>)
proof (intro impI)
  assume "skills data = SkillsAbsent \<or> skills data = SkillsString []"
  then have one: "skillsList_of data = [[]]"
    by (auto simp: skillsList_of_def trim_Nil)
  have "sublist (modern_skills [[]]) (generatePortfolioHTML clock data template cust)"
    if "template \<noteq> ''classic''" and "template \<noteq> ''artistic''"
  proof -
    have "sublist (modern_skills [[]]) (modern_skills (skillsList_of data))"
      by (simp add: one)
    then have "sublist (modern_skills [[]])
                 (generateModernTemplate clock data (skillsList_of data) (colors_of cust))"
      by (intro modern_holds) simp
    then show ?thesis
      by (simp add: generatePortfolioHTML_modern [OF that] page_holds(3))
  qed
  with one show ?chip
    by (simp add: modern_skills_def)
qed

theorem skills_fallback_one_empty_chip_witness:
  \<open>skillsList_of bare_data = [[]]
   \<and> sublist (modern_skills [[]]) (generatePortfolioHTML example_clock bare_data ''modern'' \<lparr>colors = None\<rparr>)\<close>
proof -
  have 1: "skills bare_data = SkillsAbsent \<or> skills bare_data = SkillsString []"
    by (simp add: bare_data_def)
  have 2: "''modern'' \<noteq> ''classic'' \<and> ''modern'' \<noteq> ''artistic''"
    by simp
  from 1 2 skills_fallback_one_empty_chip [of bare_data "''modern''" example_clock "\<lparr>colors = None\<rparr>"]
  show ?thesis by blast
qed










text \<open>
  C6, as the code has it. In the pdfkit variant the file name is made of the portfolio
  id and \<open>Date.now()\<close>: two generations of one portfolio have the same file name exactly
  when the clock shows the same millisecond. In the html-pdf variant the file is named
  by the portfolio id alone, so a second generation writes over the first.
\<close>

theorem pdf_filename_by_clock:
  "(pdf_filename pid k1 = pdf_filename pid k2 \<longleftrightarrow> now k1 = now k2)
   \<and> (artist p = Some a \<longrightarrow>
        (\<exists>out. generate_pdf h k1 (Some p) = Generated out
           \<and> filename out = ''portfolio-'' @ portfolio_id p @ ''-'' @ numToStr (now k1) @ ''.pdf''
           \<and> downloadUrl out = ''/uploads/portfolios/'' @ filename out))
   \<and> (toPdf (generatePortfolioHTML k1 data (stored_template sp) (stored_customizations sp)) = Some bytes1
        \<and> toPdf (generatePortfolioHTML k2 data (stored_template sp) (stored_customizations sp)) = Some bytes2
      \<longrightarrow> fst (generate_pdf_file toPdf k2
                 (fst (generate_pdf_file toPdf k1 files (Some sp) (Some data))) (Some sp) (Some data))
            = files(''generated/pdfs/'' @ stored_id sp @ ''.pdf'' \<mapsto> bytes2)
          \<and> snd (generate_pdf_file toPdf k1 files (Some sp) (Some data))
            = Download (''/pdfs/'' @ stored_id sp @ ''.pdf'')
          \<and> snd (generate_pdf_file toPdf k2 files (Some sp) (Some data))
            = Download (''/pdfs/'' @ stored_id sp @ ''.pdf''))"
proof -
  have "artist p = Some a \<longrightarrow>
        (\<exists>out. generate_pdf h k1 (Some p) = Generated out
           \<and> filename out = ''portfolio-'' @ portfolio_id p @ ''-'' @ numToStr (now k1) @ ''.pdf''
           \<and> downloadUrl out = ''/uploads/portfolios/'' @ filename out)"
    by (simp add: generate_pdf_def pdf_filename_def Let_def)
  moreover have "toPdf (generatePortfolioHTML k1 data (stored_template sp) (stored_customizations sp)) = Some bytes1
        \<and> toPdf (generatePortfolioHTML k2 data (stored_template sp) (stored_customizations sp)) = Some bytes2
      \<longrightarrow> fst (generate_pdf_file toPdf k2
                 (fst (generate_pdf_file toPdf k1 files (Some sp) (Some data))) (Some sp) (Some data))
            = files(''generated/pdfs/'' @ stored_id sp @ ''.pdf'' \<mapsto> bytes2)
          \<and> snd (generate_pdf_file toPdf k1 files (Some sp) (Some data))
            = Download (''/pdfs/'' @ stored_id sp @ ''.pdf'')
          \<and> snd (generate_pdf_file toPdf k2 files (Some sp) (Some data))
            = Download (''/pdfs/'' @ stored_id sp @ ''.pdf'')"
    by (simp add: generate_pdf_file_def pdfFilePath_def pdfUrl_def Let_def)
  ultimately show ?thesis
    using pdf_filename_eq [of pid k1 k2] by blast
qed

theorem pdf_filename_by_clock_witness:
  "pdf_filename ''p1'' example_clock \<noteq> pdf_filename ''p1'' later_clock
   \<and> (\<exists>out. generate_pdf example_host example_clock (Some example_portfolio) = Generated out
         \<and> filename out
             = ''portfolio-'' @ portfolio_id example_portfolio @ ''-'' @ numToStr (now example_clock) @ ''.pdf'')
   \<and> fst (generate_pdf_file Some later_clock
            (fst (generate_pdf_file Some example_clock Map.empty (Some example_stored) (Some example_data)))
            (Some example_stored) (Some example_data))
       = [''generated/pdfs/'' @ stored_id example_stored @ ''.pdf''
            \<mapsto> generatePortfolioHTML later_clock example_data (stored_template example_stored)
                (stored_customizations example_stored)]"
proof -
  have a: "artist example_portfolio = Some example_artist"
    by (simp add: example_portfolio_def)
  have n: "now example_clock \<noteq> now later_clock"
    by (simp add: example_clock_def later_clock_def)
  from a n
    pdf_filename_by_clock [of "''p1''" example_clock later_clock example_portfolio example_artist
      example_host Some example_data example_stored
      "generatePortfolioHTML example_clock example_data (stored_template example_stored)
         (stored_customizations example_stored)"
      "generatePortfolioHTML later_clock example_data (stored_template example_stored)
         (stored_customizations example_stored)" Map.empty]
  show ?thesis
    by blast
qed

text \<open>
  C6 as stated fails in the html-pdf variant: two generations of one portfolio, a minute
  apart, answer with the same URL and leave a single file.
\<close>

theorem regeneration_overwrites_counterexample:
  "now example_clock \<noteq> now later_clock
   \<and> snd (generate_pdf_file Some example_clock Map.empty (Some example_stored) (Some example_data))
       = Download ''/pdfs/p1.pdf''
   \<and> snd (generate_pdf_file Some later_clock
            (fst (generate_pdf_file Some example_clock Map.empty (Some example_stored) (Some example_data)))
            (Some example_stored) (Some example_data))
       = Download ''/pdfs/p1.pdf''
   \<and> dom (fst (generate_pdf_file Some later_clock
            (fst (generate_pdf_file Some example_clock Map.empty (Some example_stored) (Some example_data)))
            (Some example_stored) (Some example_data)))
       = {''generated/pdfs/p1.pdf''}"
  by (simp add: generate_pdf_file_def example_stored_def example_clock_def later_clock_def
      pdfFilePath_def pdfUrl_def Let_def)



end
